theory Spec2Isabelle
  imports Main
begin

section \<open>Student Migration Analytics: the question-answering pipeline\<close>

text \<open>
  A shallow embedding of \<^verbatim>\<open>GlobalStudentImmigration.py\<close>: the three pipeline functions
  \<^verbatim>\<open>retrieve_from_db\<close>, \<^verbatim>\<open>generate_response\<close> and \<^verbatim>\<open>process_question\<close>, the
  session set-up \<^verbatim>\<open>initialize_database\<close>, and the control flow of the top-level script.

  Conventions.
  \<^item> A Python \<^verbatim>\<open>str\<close> is a \<^typ>\<open>string\<close>; a \<^typ>\<open>char\<close> stands for the code point
    of the same number, so the model covers the texts over the code points 0 to 255.
    Pictographs of the source's user-interface texts lie outside that range and are
    left out of the literals.
  \<^item> Every function that can raise returns \<open>exn + 'a\<close> (\<open>Inl\<close> the exception) next
    to the state it leaves behind. The values of \<^verbatim>\<open>exn\<close> are instances of Python's class
    \<^verbatim>\<open>Exception\<close>, the ones an \<^verbatim>\<open>except Exception\<close> clause catches.
  \<^item> The libraries (LangChain, SQLAlchemy, the model endpoint, the process
    environment) are a parameter \<open>env\<close>: what a call into them returns or raises may
    depend on the calls made before it.
  \<^item> Spinners, progress bars and sleeps change no state and are left out.
\<close>

subsection \<open>Strings\<close>

definition newline :: string where
  "newline = [CHR 0x0A]"

definition quote :: string where
  "quote = [CHR 0x27]"

text \<open>A triple-quoted literal whose every line, the last included, ends in a newline.\<close>

definition lines_text :: "string list \<Rightarrow> string" where
  "lines_text ls = concat (map (\<lambda>l. l @ newline) ls)"

text \<open>
  \<^verbatim>\<open>str.lower\<close> on the code points below 256: the letters A to Z and the Latin-1
  capitals 0xC0 to 0xDE (without the multiplication sign 0xD7) move up by 32.
\<close>

definition lower_char :: "char \<Rightarrow> char" where
  "lower_char c =
     (let n = (of_char c :: nat)
      in if (65 \<le> n \<and> n \<le> 90) \<or> (192 \<le> n \<and> n \<le> 222 \<and> n \<noteq> 215)
         then char_of (n + 32) else c)"

definition lower :: "string \<Rightarrow> string" where
  "lower s = map lower_char s"

text \<open>
  \<^verbatim>\<open>str.isspace\<close> on the code points below 256: tab to carriage return, the four
  separators 0x1C to 0x1F, the space, NEL (0x85) and the no-break space (0xA0).
\<close>

definition isspace :: "char \<Rightarrow> bool" where
  "isspace c =
     (let n = (of_char c :: nat)
      in (9 \<le> n \<and> n \<le> 13) \<or> (28 \<le> n \<and> n \<le> 32) \<or> n = 133 \<or> n = 160)"

definition lstrip :: "string \<Rightarrow> string" where
  "lstrip s = dropWhile isspace s"

definition rstrip :: "string \<Rightarrow> string" where
  "rstrip s = rev (dropWhile isspace (rev s))"

definition strip :: "string \<Rightarrow> string" where
  "strip s = rstrip (lstrip s)"

subsection \<open>Exceptions\<close>

datatype exn =
    TypeError string
  | KeyError string
  | Error string

text \<open>
  \<^verbatim>\<open>str(e)\<close>. A \<^verbatim>\<open>KeyError\<close> prints the \<^verbatim>\<open>repr\<close> of its key, which for a key
  without quotes or escapes is the key between apostrophes.
\<close>

fun str :: "exn \<Rightarrow> string" where
  "str (TypeError m) = m"
| "str (KeyError k) = quote @ k @ quote"
| "str (Error m) = m"

definition NoneType_not_callable :: exn where
  "NoneType_not_callable = TypeError (quote @ ''NoneType'' @ quote @ '' object is not callable'')"

subsection \<open>Library objects and the world\<close>

datatype message =
    SystemMessage (content: string)
  | HumanMessage (content: string)
  | AIMessage (content: string)

record ChatOpenAI =
  temperature :: int
  openai_api_key :: string

record SQLDatabase =
  uri :: string
  include_tables :: "string list"
  sample_rows_in_table_info :: nat

record SQLDatabaseChain =
  chain_llm :: ChatOpenAI
  chain_db :: SQLDatabase
  verbose :: bool

text \<open>The calls that leave the program: one to the chain, one to the chat model.\<close>

datatype call =
    ChainCall SQLDatabaseChain string
  | LlmCall ChatOpenAI "message list"

text \<open>What Streamlit is asked to show.\<close>

datatype ui =
    success string
  | info string
  | error string
  | warning string
  | balloons

text \<open>
  The libraries. A constructor either raises or builds the object holding its
  arguments; \<open>run_chain\<close> and \<open>run_llm\<close> are \<^verbatim>\<open>db_chain(query)\<close> and
  \<^verbatim>\<open>llm(messages)\<close>, given the calls made so far.
\<close>

record env =
  getenv_OPENAI_API_KEY :: "string option"
  new_ChatOpenAI :: "int \<Rightarrow> string \<Rightarrow> exn option"
  from_uri :: "string \<Rightarrow> string list \<Rightarrow> nat \<Rightarrow> exn option"
  from_llm :: "ChatOpenAI \<Rightarrow> SQLDatabase \<Rightarrow> bool \<Rightarrow> exn option"
  run_chain :: "call list \<Rightarrow> SQLDatabaseChain \<Rightarrow> string \<Rightarrow> exn + (string \<rightharpoonup> string)"
  run_llm :: "call list \<Rightarrow> ChatOpenAI \<Rightarrow> message list \<Rightarrow> exn + message"

text \<open>
  \<^verbatim>\<open>st.session_state\<close>, with what was shown and what was called. The script writes
  \<^verbatim>\<open>db_connected\<close> (line 160) and \<^verbatim>\<open>chat_history\<close> (line 263) before it reads them
  and reads them with a default before that (lines 171, 211), so an absent key is
  its default here: \<open>False\<close> and \<open>[]\<close>. The keys \<^verbatim>\<open>llm\<close>, \<^verbatim>\<open>db\<close> and
  \<^verbatim>\<open>db_chain\<close> are read by \<^verbatim>\<open>process_question\<close> only, which the script reaches after
  line 254 has written them. Whether \<^verbatim>\<open>initialized\<close> is present is what line 244
  tests, so it is an option.
\<close>

record world =
  chat_history :: "(string \<times> string) list"
  llm :: "ChatOpenAI option"
  db :: "SQLDatabase option"
  db_chain :: "SQLDatabaseChain option"
  db_connected :: bool
  initialized :: "bool option"
  show_db_info :: bool
  selected_question :: "string option"
  rendered :: "ui list"
  calls :: "call list"

subsection \<open>\<^verbatim>\<open>initialize_database\<close>\<close>

definition os_getenv :: "string option \<Rightarrow> string \<Rightarrow> string" where
  "os_getenv var dflt = (case var of None \<Rightarrow> dflt | Some v \<Rightarrow> v)"

definition mysql_uri :: string where
  "mysql_uri = ''mysql+pymysql://'' @ ''root'' @ ''@'' @ ''localhost'' @ '':'' @ ''3306'' @ ''/'' @ ''sahasra''"

type_synonym handles = "ChatOpenAI option \<times> SQLDatabase option \<times> SQLDatabaseChain option"

text \<open>The body of the \<^verbatim>\<open>try\<close>, lines 24 to 48.\<close>

definition initialize_database_try :: "env \<Rightarrow> world \<Rightarrow> (exn + handles) \<times> world" where
  "initialize_database_try env s =
     (let OPENAI_API_KEY = os_getenv (getenv_OPENAI_API_KEY env) ''YOUR API KEY''
      in if OPENAI_API_KEY = []
         then (Inr (None, None, None),
               s\<lparr>rendered := rendered s @ [error ''OpenAI API key not found!'']\<rparr>)
         else
           (case new_ChatOpenAI env 0 OPENAI_API_KEY of
              Some e \<Rightarrow> (Inl e, s)
            | None \<Rightarrow>
               (let l = \<lparr>temperature = 0, openai_api_key = OPENAI_API_KEY\<rparr>
                in case from_uri env mysql_uri [''global_student_migration''] 2 of
                     Some e \<Rightarrow> (Inl e, s)
                   | None \<Rightarrow>
                      (let d = \<lparr>uri = mysql_uri,
                                include_tables = [''global_student_migration''],
                                sample_rows_in_table_info = 2\<rparr>
                       in case from_llm env l d True of
                            Some e \<Rightarrow> (Inl e, s)
                          | None \<Rightarrow>
                             (Inr (Some l, Some d,
                                   Some \<lparr>chain_llm = l, chain_db = d, verbose = True\<rparr>),
                              s\<lparr>db_connected := True\<rparr>)))))"

text \<open>The function with its \<^verbatim>\<open>except Exception\<close>, lines 50 to 53.\<close>

definition initialize_database :: "env \<Rightarrow> world \<Rightarrow> (exn + handles) \<times> world" where
  "initialize_database env s =
     (case initialize_database_try env s of
        (Inr h, s') \<Rightarrow> (Inr h, s')
      | (Inl e, s') \<Rightarrow>
          (Inr (None, None, None),
           s'\<lparr>rendered := rendered s' @ [error (''Database connection failed: '' @ str e)],
              db_connected := False\<rparr>))"

subsection \<open>\<^verbatim>\<open>retrieve_from_db\<close>\<close>

text \<open>\<^verbatim>\<open>db_chain(query)\<close>: calling \<^verbatim>\<open>None\<close> raises before anything is called.\<close>

definition call_db_chain ::
  "env \<Rightarrow> SQLDatabaseChain option \<Rightarrow> string \<Rightarrow> world \<Rightarrow> (exn + (string \<rightharpoonup> string)) \<times> world" where
  "call_db_chain env h_chain query s =
     (case h_chain of
        None \<Rightarrow> (Inl NoneType_not_callable, s)
      | Some c \<Rightarrow> (run_chain env (calls s) c query, s\<lparr>calls := calls s @ [ChainCall c query]\<rparr>))"

text \<open>\<^verbatim>\<open>d[key]\<close>\<close>

definition getitem :: "(string \<rightharpoonup> string) \<Rightarrow> string \<Rightarrow> exn + string" where
  "getitem d key = (case d key of None \<Rightarrow> Inl (KeyError key) | Some v \<Rightarrow> Inr v)"

definition retrieve_from_db_try ::
  "env \<Rightarrow> string \<Rightarrow> SQLDatabaseChain option \<Rightarrow> world \<Rightarrow> (exn + string) \<times> world" where
  "retrieve_from_db_try env query h_chain s =
     (case call_db_chain env h_chain query s of
        (Inl e, s') \<Rightarrow> (Inl e, s')
      | (Inr db_context, s') \<Rightarrow>
          (case getitem db_context ''result'' of
             Inl e \<Rightarrow> (Inl e, s')
           | Inr r \<Rightarrow> (Inr (strip r), s')))"

definition retrieve_from_db ::
  "env \<Rightarrow> string \<Rightarrow> SQLDatabaseChain option \<Rightarrow> world \<Rightarrow> (exn + string) \<times> world" where
  "retrieve_from_db env query h_chain s =
     (case retrieve_from_db_try env query h_chain s of
        (Inr r, s') \<Rightarrow> (Inr r, s')
      | (Inl e, s') \<Rightarrow> (Inr (''Error retrieving data: '' @ str e), s'))"

subsection \<open>\<^verbatim>\<open>generate_response\<close>\<close>

definition system_message :: string where
  "system_message = lines_text
     [''You are a student migration data expert and analyst.'',
      ''Your task is to answer user questions using information from a SQL database about global student migration patterns.'',
      ''Base your answer only on the given context and provide insights when possible.'',
      '''',
      ''Guidelines:'',
      ''- Be conversational and helpful'',
      ''- Provide specific numbers when available'',
      ''- Offer context about trends when relevant'',
      ''- If data is limited, acknowledge it'',
      ''- Use emojis sparingly but appropriately'',
      '''',
      ''Example:'',
      ''Input: How many students went to Canada?'',
      ''Context: There are 120 students in the database who went to Canada.'',
      ''Output: Based on the data, 120 students have migrated to Canada for higher studies. Canada continues to be a popular destination for international students!'']"

text \<open>\<^verbatim>\<open>human_qry_template.format(human_input=..., db_context=...)\<close>\<close>

definition human_qry_template :: "string \<Rightarrow> string \<Rightarrow> message" where
  "human_qry_template human_input db_context =
     HumanMessage (lines_text [''Input:'', human_input, '''', ''Context:'', db_context, '''', ''Output:''])"

text \<open>\<^verbatim>\<open>llm(messages)\<close>\<close>

definition call_llm ::
  "env \<Rightarrow> ChatOpenAI option \<Rightarrow> message list \<Rightarrow> world \<Rightarrow> (exn + message) \<times> world" where
  "call_llm env h_llm messages s =
     (case h_llm of
        None \<Rightarrow> (Inl NoneType_not_callable, s)
      | Some l \<Rightarrow> (run_llm env (calls s) l messages, s\<lparr>calls := calls s @ [LlmCall l messages]\<rparr>))"

definition generate_response_try ::
  "env \<Rightarrow> string \<Rightarrow> ChatOpenAI option \<Rightarrow> SQLDatabaseChain option \<Rightarrow> world
     \<Rightarrow> (exn + string) \<times> world" where
  "generate_response_try env query h_llm h_chain s =
     (case retrieve_from_db env query h_chain s of
        (Inl e, s1) \<Rightarrow> (Inl e, s1)
      | (Inr db_context, s1) \<Rightarrow>
          (let messages = [SystemMessage system_message, human_qry_template query db_context]
           in case call_llm env h_llm messages s1 of
                (Inl e, s2) \<Rightarrow> (Inl e, s2)
              | (Inr response, s2) \<Rightarrow> (Inr (content response), s2)))"

definition generate_response ::
  "env \<Rightarrow> string \<Rightarrow> ChatOpenAI option \<Rightarrow> SQLDatabaseChain option \<Rightarrow> world
     \<Rightarrow> (exn + string) \<times> world" where
  "generate_response env query h_llm h_chain s =
     (case generate_response_try env query h_llm h_chain s of
        (Inr r, s') \<Rightarrow> (Inr r, s')
      | (Inl e, s') \<Rightarrow>
          (Inr (''Sorry, I encountered an error while processing your question: '' @ str e), s'))"

subsection \<open>\<^verbatim>\<open>process_question\<close>\<close>

definition exit_phrases :: "string list" where
  "exit_phrases = [''exit'', ''quit'', ''bye'', ''goodbye'']"

definition process_question :: "env \<Rightarrow> string \<Rightarrow> world \<Rightarrow> (exn + bool) \<times> world" where
  "process_question env question s =
     (if strip (lower question) \<in> set exit_phrases
      then (Inr True,
            s\<lparr>rendered := rendered s @
                [success ''**Thank you for using Student Migration Analytics!**'',
                 info ''Feel free to ask more questions anytime.'',
                 balloons]\<rparr>)
      else
        (let s1 = s\<lparr>chat_history := chat_history s @ [(''You'', question)]\<rparr>
         in case generate_response env question (llm s1) (db_chain s1) s1 of
              (Inr response, s2) \<Rightarrow>
                (Inr True,
                 s2\<lparr>chat_history := chat_history s2 @ [(''Bot'', response)],
                    rendered := rendered s2 @ [success ''Response generated successfully!'']\<rparr>)
            | (Inl e, s2) \<Rightarrow>
                (Inr False,
                 s2\<lparr>rendered := rendered s2 @
                      [error (''**Error Occurred**: '' @ str e),
                       warning ''Please try rephrasing your question or check the system status.'']\<rparr>)))"

subsection \<open>The script\<close>

text \<open>
  Streamlit runs the script from the top on every interaction; at most one button (or
  one submit button of the form) reads as pressed in that run. \<^verbatim>\<open>st.rerun()\<close> and
  \<^verbatim>\<open>st.stop()\<close> end the run where they stand. Of what the script itself draws, the
  model keeps the notifications of the not-ready gate and of the buttons; the page
  furniture (headers, metrics, the chat bubbles, the help texts) is left out.
\<close>

datatype event =
    Load
  | ClearChatHistory
  | ShowDatabaseInfo
  | Sample nat
  | RetryConnection
  | HideDatabaseInfo
  | SendMessage string
  | ClearInput
  | Help

datatype control =
    Finished
  | Stopped
  | Rerun
  | Raised exn

definition sample_questions :: "string list" where
  "sample_questions =
     [''How many students went to Canada?'',
      ''Which country has the most students?'',
      ''Show me migration trends by year'',
      ''What are the top 5 destinations?'',
      ''How many students from India?'',
      ''What is the average age of migrating students?'',
      ''Which field of study is most popular?'']"

text \<open>The sidebar, lines 154 to 237. \<open>Finished\<close> is falling through to line 239.\<close>

definition sidebar :: "event \<Rightarrow> world \<Rightarrow> control \<times> world" where
  "sidebar ev s =
     (if ev = ClearChatHistory
      then (Rerun, s\<lparr>chat_history := [],
                     rendered := rendered s @ [success ''Chat history cleared!'']\<rparr>)
      else
        (let s1 = (if ev = ShowDatabaseInfo then s\<lparr>show_db_info := True\<rparr> else s)
         in case ev of
              Sample i \<Rightarrow>
                (if i < length sample_questions
                 then (if db_connected s1
                       then (Rerun, s1\<lparr>selected_question := Some (sample_questions ! i)\<rparr>)
                       else (Finished,
                             s1\<lparr>rendered := rendered s1 @ [error ''Database not connected!'']\<rparr>))
                 else (Finished, s1))
            | _ \<Rightarrow> (Finished, s1)))"

text \<open>Lines 244 to 259.\<close>

definition initialize_components :: "env \<Rightarrow> world \<Rightarrow> control \<times> world" where
  "initialize_components env s =
     (case initialized s of
        Some _ \<Rightarrow> (Finished, s)
      | None \<Rightarrow>
          (case initialize_database env s of
             (Inl e, s') \<Rightarrow> (Raised e, s')
           | (Inr (l, d, c), s') \<Rightarrow>
               (Finished, s'\<lparr>llm := l, db := d, db_chain := c, initialized := Some True\<rparr>)))"

text \<open>Lines 266 to 388: the not-ready gate, the database panel, the form.\<close>

definition page :: "env \<Rightarrow> event \<Rightarrow> world \<Rightarrow> control \<times> world" where
  "page env ev s =
     (if \<not> db_connected s
      then
        (let s1 = s\<lparr>rendered := rendered s @
                      [error ''**System Not Ready**'',
                       warning ''Please check your database connection and OpenAI API key configuration.'']\<rparr>
         in if ev = RetryConnection
            then (Rerun, s1\<lparr>initialized := Some False\<rparr>)
            else (Stopped, s1))
      else if show_db_info s \<and> ev = HideDatabaseInfo
      then (Rerun, s\<lparr>show_db_info := False\<rparr>)
      else
        (case ev of
           SendMessage user_input \<Rightarrow>
             (if user_input \<noteq> []
              then (case process_question env user_input s of
                      (Inl e, s') \<Rightarrow> (Raised e, s')
                    | (Inr _, s') \<Rightarrow> (Rerun, s'\<lparr>selected_question := None\<rparr>))
              else (Finished, s))
         | ClearInput \<Rightarrow>
             (Rerun, s\<lparr>selected_question := None,
                       rendered := rendered s @ [info ''Input cleared!'']\<rparr>)
         | Help \<Rightarrow>
             (Finished,
              s\<lparr>rendered := rendered s @
                  [info ''**Help**: Use natural language to ask questions about student migration data!'']\<rparr>)
         | _ \<Rightarrow> (Finished, s)))"

text \<open>One run of the script; the page is drawn afresh.\<close>

definition script :: "env \<Rightarrow> event \<Rightarrow> world \<Rightarrow> control \<times> world" where
  "script env ev s =
     (case sidebar ev (s\<lparr>rendered := []\<rparr>) of
        (Finished, s1) \<Rightarrow>
          (case initialize_components env s1 of
             (Finished, s2) \<Rightarrow> page env ev s2
           | r \<Rightarrow> r)
      | r \<Rightarrow> r)"

text \<open>
  One interaction: the run it triggers and, when that run asks for a rerun, the run
  that follows, in which no button reads as pressed.
\<close>

definition interact :: "env \<Rightarrow> event \<Rightarrow> world \<Rightarrow> control \<times> world" where
  "interact env ev s =
     (case script env ev s of
        (Rerun, s') \<Rightarrow> script env Load s'
      | r \<Rightarrow> r)"

definition session :: "env \<Rightarrow> event list \<Rightarrow> world \<Rightarrow> world" where
  "session env evs s = foldl (\<lambda>s ev. snd (interact env ev s)) s evs"

text \<open>The session state of a new browser session: no key is set.\<close>

definition new_session :: world where
  "new_session =
     \<lparr>chat_history = [], llm = None, db = None, db_chain = None, db_connected = False,
      initialized = None, show_db_info = False, selected_question = None,
      rendered = [], calls = []\<rparr>"

subsection \<open>Properties of the chat history\<close>

text \<open>User and assistant entries in strict alternation, a user entry first.\<close>

fun alternating :: "(string \<times> string) list \<Rightarrow> bool" where
  "alternating [] = True"
| "alternating [e] = False"
| "alternating ((a, q) # (b, r) # rest) = (a = ''You'' \<and> b = ''Bot'' \<and> alternating rest)"

text \<open>The chat history that a list of question-answer pairs spells out.\<close>

definition exchanges :: "(string \<times> string) list \<Rightarrow> (string \<times> string) list" where
  "exchanges qrs = concat (map (\<lambda>(q, r). [(''You'', q), (''Bot'', r)]) qrs)"

definition is_exit :: "string \<Rightarrow> bool" where
  "is_exit question = (strip (lower question) \<in> set exit_phrases)"

definition call_temperature :: "call \<Rightarrow> int" where
  "call_temperature k =
     (case k of ChainCall c q \<Rightarrow> temperature (chain_llm c) | LlmCall l m \<Rightarrow> temperature l)"

text \<open>A list of questions, each passed to \<^verbatim>\<open>process_question\<close> in turn.\<close>

fun process_questions :: "env \<Rightarrow> string list \<Rightarrow> world \<Rightarrow> world" where
  "process_questions env [] s = s"
| "process_questions env (q # qs) s = process_questions env qs (snd (process_question env q s))"

subsection \<open>Example environments\<close>

text \<open>
  A reachable database with a credential in the environment: the chain finds 120
  students, the chat model phrases the answer.
\<close>

definition canada_env :: env where
  "canada_env =
     \<lparr>getenv_OPENAI_API_KEY = Some ''sk-example'',
      new_ChatOpenAI = (\<lambda>t k. None),
      from_uri = (\<lambda>u ts n. None),
      from_llm = (\<lambda>l d v. None),
      run_chain = (\<lambda>cs c q. Inr [''query'' \<mapsto> q,
         ''result'' \<mapsto> ''There are 120 students in the database who went to Canada. '']),
      run_llm = (\<lambda>cs l ms. Inr (AIMessage
         ''Based on the data, 120 students have migrated to Canada for higher studies.''))\<rparr>"

text \<open>The same with no \<^verbatim>\<open>OPENAI_API_KEY\<close> in the process environment.\<close>

definition unset_key_env :: env where
  "unset_key_env = canada_env\<lparr>getenv_OPENAI_API_KEY := None\<rparr>"

text \<open>A database host that refuses the connection and a model endpoint that times out.\<close>

definition unreachable_env :: env where
  "unreachable_env =
     canada_env
       \<lparr>from_uri := (\<lambda>u ts n. Some (Error ''Connection refused'')),
        run_chain := (\<lambda>cs c q. Inl (Error ''Connection refused'')),
        run_llm := (\<lambda>cs l ms. Inl (Error ''Request timed out''))\<rparr>"

definition canada_llm :: ChatOpenAI where
  "canada_llm = \<lparr>temperature = 0, openai_api_key = ''sk-example''\<rparr>"

definition canada_db :: SQLDatabase where
  "canada_db = \<lparr>uri = mysql_uri, include_tables = [''global_student_migration''],
                 sample_rows_in_table_info = 2\<rparr>"

definition canada_chain :: SQLDatabaseChain where
  "canada_chain = \<lparr>chain_llm = canada_llm, chain_db = canada_db, verbose = True\<rparr>"

text \<open>The session after the first run of the script in \<open>canada_env\<close>.\<close>

definition canada_session :: world where
  "canada_session =
     new_session\<lparr>llm := Some canada_llm, db := Some canada_db, db_chain := Some canada_chain,
                 db_connected := True, initialized := Some True\<rparr>"

section \<open>Lemmas\<close>

subsection \<open>Strings\<close>

lemma isspace_lower_char: "isspace (lower_char c) = isspace c"
proof -
  have b: "(of_char c :: nat) < 256" by simp
  show ?thesis
    using b by (auto simp: isspace_def lower_char_def Let_def)
qed

subsection \<open>The pipeline returns, and touches nothing but the call log\<close>

lemma retrieve_from_db_returns: "\<exists>r s'. retrieve_from_db env q h s = (Inr r, s')"
  by (auto simp: retrieve_from_db_def split: prod.splits sum.splits)

lemma retrieve_from_db_world:
  "snd (retrieve_from_db env q h s) =
     (case h of None \<Rightarrow> s | Some c \<Rightarrow> s\<lparr>calls := calls s @ [ChainCall c q]\<rparr>)"
  by (auto simp: retrieve_from_db_def retrieve_from_db_try_def call_db_chain_def
           split: prod.splits sum.splits option.splits)

lemma call_llm_world:
  "snd (call_llm env l m s) =
     (case l of None \<Rightarrow> s | Some k \<Rightarrow> s\<lparr>calls := calls s @ [LlmCall k m]\<rparr>)"
  by (auto simp: call_llm_def split: option.splits)

lemma generate_response_returns: "\<exists>r s'. generate_response env q l h s = (Inr r, s')"
  by (auto simp: generate_response_def split: prod.splits sum.splits)

lemma generate_response_world:
  "\<exists>r. fst (retrieve_from_db env q h s) = Inr r \<and>
     snd (generate_response env q l h s) =
     s\<lparr>calls := calls s @ (case h of None \<Rightarrow> [] | Some c \<Rightarrow> [ChainCall c q])
           @ (case l of None \<Rightarrow> []
              | Some k \<Rightarrow> [LlmCall k [SystemMessage system_message, human_qry_template q r]])\<rparr>"
proof -
  obtain r s1 where R: "retrieve_from_db env q h s = (Inr r, s1)"
    using retrieve_from_db_returns by blast
  let ?m = "[SystemMessage system_message, human_qry_template q r]"
  have s1: "s1 = (case h of None \<Rightarrow> s | Some c \<Rightarrow> s\<lparr>calls := calls s @ [ChainCall c q]\<rparr>)"
    using retrieve_from_db_world[of env q h s] R by simp
  have g: "snd (generate_response env q l h s) = snd (call_llm env l ?m s1)"
    using R by (simp add: generate_response_def generate_response_try_def Let_def
                     split: prod.splits sum.splits)
  have "snd (call_llm env l ?m s1) =
     s\<lparr>calls := calls s @ (case h of None \<Rightarrow> [] | Some c \<Rightarrow> [ChainCall c q])
                       @ (case l of None \<Rightarrow> [] | Some k \<Rightarrow> [LlmCall k ?m])\<rparr>"
    unfolding call_llm_world s1 by (simp split: option.splits)
  with g R show ?thesis by simp
qed

subsection \<open>One question\<close>

lemma process_question_exit:
  "is_exit q \<Longrightarrow> process_question env q s =
     (Inr True,
      s\<lparr>rendered := rendered s @
          [success ''**Thank you for using Student Migration Analytics!**'',
           info ''Feel free to ask more questions anytime.'',
           balloons]\<rparr>)"
  by (simp add: process_question_def is_exit_def)

lemma process_question_answer:
  assumes "\<not> is_exit q"
      and "generate_response env q (llm s) (db_chain s)
             (s\<lparr>chat_history := chat_history s @ [(''You'', q)]\<rparr>) = (x, s2)"
  shows "\<exists>r. x = Inr r \<and> process_question env q s =
     (Inr True,
      s2\<lparr>chat_history := chat_history s @ [(''You'', q), (''Bot'', r)],
         rendered := rendered s2 @ [success ''Response generated successfully!'']\<rparr>)"
proof -
  let ?s1 = "s\<lparr>chat_history := chat_history s @ [(''You'', q)]\<rparr>"
  obtain r s' where G: "generate_response env q (llm s) (db_chain s) ?s1 = (Inr r, s')"
    using generate_response_returns by blast
  obtain cs where W: "s2 = ?s1\<lparr>calls := cs\<rparr>"
    using generate_response_world[of env q "db_chain s" ?s1 "llm s"] assms(2) by auto
  have "chat_history s2 = chat_history s @ [(''You'', q)]"
    unfolding W by simp
  with assms G show ?thesis
    by (auto simp: process_question_def is_exit_def Let_def)
qed

lemma process_question_history:
  "\<exists>r. chat_history (snd (process_question env q s)) =
         chat_history s @ (if is_exit q then [] else [(''You'', q), (''Bot'', r)])"
proof (cases "is_exit q")
  case True
  then show ?thesis by (simp add: process_question_exit)
next
  case False
  obtain x s2 where G: "generate_response env q (llm s) (db_chain s)
             (s\<lparr>chat_history := chat_history s @ [(''You'', q)]\<rparr>) = (x, s2)"
    by (cases "generate_response env q (llm s) (db_chain s)
             (s\<lparr>chat_history := chat_history s @ [(''You'', q)]\<rparr>)")
  from process_question_answer[OF False G] False show ?thesis by auto
qed

subsection \<open>Alternation\<close>

lemma process_questions_foldl:
  "process_questions env qs s = foldl (\<lambda>s q. snd (process_question env q s)) s qs"
  by (induction qs arbitrary: s) auto

lemma alternating_append:
  "alternating xs \<Longrightarrow> alternating ys \<Longrightarrow> alternating (xs @ ys)"
  by (induction xs rule: alternating.induct) auto

lemma alternating_ends:
  "alternating h \<Longrightarrow> h \<noteq> [] \<Longrightarrow> fst (hd h) = ''You'' \<and> fst (last h) = ''Bot''"
  by (induction h rule: alternating.induct) auto

lemma alternating_exchanges: "alternating (exchanges qrs)"
  by (induction qrs) (auto simp: exchanges_def)

lemma questions_history:
  "\<exists>answers. length answers = length (filter (\<lambda>q. \<not> is_exit q) questions) \<and>
     chat_history (foldl (\<lambda>s q. snd (process_question env q s)) s questions) =
       chat_history s @ exchanges (zip (filter (\<lambda>q. \<not> is_exit q) questions) answers)"
proof (induction questions arbitrary: s)
  case Nil
  show ?case by (simp add: exchanges_def)
next
  case (Cons q qs)
  let ?s1 = "snd (process_question env q s)"
  obtain r where H: "chat_history ?s1 =
         chat_history s @ (if is_exit q then [] else [(''You'', q), (''Bot'', r)])"
    using process_question_history by blast
  obtain answers where A: "length answers = length (filter (\<lambda>q. \<not> is_exit q) qs)"
     "chat_history (foldl (\<lambda>s q. snd (process_question env q s)) ?s1 qs) =
       chat_history ?s1 @ exchanges (zip (filter (\<lambda>q. \<not> is_exit q) qs) answers)"
    using Cons.IH[of ?s1] by blast
  show ?case
  proof (cases "is_exit q")
    case True
    with H A show ?thesis by auto
  next
    case False
    with H A have "length (r # answers) = length (filter (\<lambda>q. \<not> is_exit q) (q # qs)) \<and>
     chat_history (foldl (\<lambda>s q. snd (process_question env q s)) s (q # qs)) =
       chat_history s @ exchanges (zip (filter (\<lambda>q. \<not> is_exit q) (q # qs)) (r # answers))"
      by (simp add: exchanges_def)
    then show ?thesis by blast
  qed
qed

subsection \<open>Session set-up\<close>

lemma initialize_database_try_handles:
  "fst (initialize_database_try env s) = fst (initialize_database_try env s')"
  by (simp add: initialize_database_try_def Let_def split: option.splits)

lemma initialize_database_try_raises:
  "fst (initialize_database_try env s) = Inl e \<Longrightarrow> initialize_database_try env s = (Inl e, s)"
  by (auto simp: initialize_database_try_def Let_def split: option.splits if_splits)

lemma initialize_database_fails:
  assumes "fst (initialize_database_try env s) = Inl e"
  shows "initialize_database env s' =
     (Inr (None, None, None),
      s'\<lparr>rendered := rendered s' @ [error (''Database connection failed: '' @ str e)],
         db_connected := False\<rparr>)"
proof -
  have "fst (initialize_database_try env s') = Inl e"
    using assms initialize_database_try_handles[of env s' s] by simp
  then have "initialize_database_try env s' = (Inl e, s')"
    by (rule initialize_database_try_raises)
  then show ?thesis by (simp add: initialize_database_def)
qed

lemma initialize_database_temperature:
  assumes "initialize_database env s = (Inr (l, d, Some c), s')"
  shows "temperature (chain_llm c) = 0 \<and> l = Some (chain_llm c)"
  using assms
  by (auto simp: initialize_database_def initialize_database_try_def Let_def
           split: option.splits if_splits prod.splits sum.splits)

subsection \<open>The not-ready gate\<close>

lemma page_not_ready:
  assumes "\<not> db_connected s"
  shows "page env ev s =
     (if ev = RetryConnection then Rerun else Stopped,
      s\<lparr>rendered := rendered s @
            [error ''**System Not Ready**'',
             warning ''Please check your database connection and OpenAI API key configuration.''],
        initialized := (if ev = RetryConnection then Some False else initialized s)\<rparr>)"
  using assms by (simp add: page_def Let_def)

lemma sidebar_keeps:
  "calls (snd (sidebar ev s)) = calls s \<and> initialized (snd (sidebar ev s)) = initialized s \<and>
   db_connected (snd (sidebar ev s)) = db_connected s \<and>
   fst (sidebar ev s) \<in> {Finished, Rerun} \<and>
   (fst (sidebar ev s) = Rerun \<longrightarrow> ev = ClearChatHistory \<or> db_connected s) \<and>
   (ev = Load \<longrightarrow> fst (sidebar ev s) = Finished)"
  by (cases ev) (auto simp: sidebar_def Let_def)

lemma script_not_ready:
  assumes "initialized s \<noteq> None" and "\<not> db_connected s"
  shows "fst (script env ev s) \<in> {Stopped, Rerun} \<and>
         (ev = Load \<longrightarrow> fst (script env ev s) = Stopped) \<and>
         initialized (snd (script env ev s)) \<noteq> None \<and>
         \<not> db_connected (snd (script env ev s)) \<and>
         calls (snd (script env ev s)) = calls s"
proof -
  let ?s0 = "s\<lparr>rendered := []\<rparr>"
  obtain c s1 where S: "sidebar ev ?s0 = (c, s1)" by (cases "sidebar ev ?s0")
  have K: "calls s1 = calls s" "initialized s1 = initialized s" "\<not> db_connected s1"
     "c \<in> {Finished, Rerun}" "c = Rerun \<longrightarrow> ev = ClearChatHistory" "ev = Load \<longrightarrow> c = Finished"
    using sidebar_keeps[of ev ?s0] S assms by auto
  show ?thesis
  proof (cases "c = Rerun")
    case True
    with S K assms show ?thesis by (auto simp: script_def)
  next
    case False
    with K have c: "c = Finished" by auto
    from K assms obtain b where b: "initialized s1 = Some b" by auto
    have E: "script env ev s = page env ev s1"
      using S c b by (simp add: script_def initialize_components_def)
    show ?thesis
      unfolding E page_not_ready[OF K(3)] using K(1,2,3) assms(1) by auto
  qed
qed

lemma interact_not_ready:
  assumes "initialized s \<noteq> None" and "\<not> db_connected s"
  shows "fst (interact env ev s) = Stopped \<and>
         initialized (snd (interact env ev s)) \<noteq> None \<and>
         \<not> db_connected (snd (interact env ev s)) \<and>
         calls (snd (interact env ev s)) = calls s"
proof -
  obtain c s1 where S: "script env ev s = (c, s1)" by (cases "script env ev s")
  have K: "c \<in> {Stopped, Rerun}" "initialized s1 \<noteq> None" "\<not> db_connected s1" "calls s1 = calls s"
    using script_not_ready[OF assms, of env ev] S by auto
  show ?thesis
  proof (cases "c = Rerun")
    case True
    then have "interact env ev s = script env Load s1"
      using S by (simp add: interact_def)
    with script_not_ready[OF K(2,3), of env Load] K show ?thesis by simp
  next
    case False
    with K have "c = Stopped" by auto
    with S K show ?thesis by (simp add: interact_def)
  qed
qed

lemma script_initialization_fails:
  assumes "initialized s = None" and "fst (initialize_database_try env s) = Inl e"
  shows "fst (script env ev s) \<in> {Stopped, Rerun} \<and>
         (ev = Load \<longrightarrow> fst (script env ev s) = Stopped) \<and>
         (fst (script env ev s) = Stopped \<longrightarrow> initialized (snd (script env ev s)) \<noteq> None) \<and>
         (initialized (snd (script env ev s)) \<noteq> None \<longrightarrow> \<not> db_connected (snd (script env ev s))) \<and>
         calls (snd (script env ev s)) = calls s"
proof -
  let ?s0 = "s\<lparr>rendered := []\<rparr>"
  obtain c s1 where S: "sidebar ev ?s0 = (c, s1)" by (cases "sidebar ev ?s0")
  have K: "calls s1 = calls s" "initialized s1 = None"
     "c \<in> {Finished, Rerun}" "ev = Load \<longrightarrow> c = Finished"
    using sidebar_keeps[of ev ?s0] S assms by auto
  show ?thesis
  proof (cases "c = Rerun")
    case True
    with S K assms show ?thesis by (auto simp: script_def)
  next
    case False
    with K have c: "c = Finished" by auto
    let ?s2 = "s1\<lparr>rendered := rendered s1 @ [error (''Database connection failed: '' @ str e)],
         db_connected := False, llm := None, db := None, db_chain := None,
         initialized := Some True\<rparr>"
    have "initialize_components env s1 = (Finished, ?s2)"
      using K initialize_database_fails[OF assms(2), of s1]
      by (simp add: initialize_components_def)
    then have E: "script env ev s = page env ev ?s2"
      using S c by (simp add: script_def)
    have n: "\<not> db_connected ?s2" by simp
    show ?thesis
      unfolding E page_not_ready[OF n] using K(1) by auto
  qed
qed

lemma interact_initialization_fails:
  assumes "initialized s = None" and "fst (initialize_database_try env s) = Inl e"
  shows "fst (interact env ev s) = Stopped \<and>
         initialized (snd (interact env ev s)) \<noteq> None \<and>
         \<not> db_connected (snd (interact env ev s)) \<and>
         calls (snd (interact env ev s)) = calls s"
proof -
  obtain c s1 where S: "script env ev s = (c, s1)" by (cases "script env ev s")
  have K: "c \<in> {Stopped, Rerun}" "c = Stopped \<longrightarrow> initialized s1 \<noteq> None"
      "initialized s1 \<noteq> None \<longrightarrow> \<not> db_connected s1" "calls s1 = calls s"
    using script_initialization_fails[OF assms, of ev] S by auto
  show ?thesis
  proof (cases "c = Rerun")
    case False
    with K have "c = Stopped" by auto
    with S K show ?thesis by (simp add: interact_def)
  next
    case True
    then have I: "interact env ev s = script env Load s1"
      using S by (simp add: interact_def)
    show ?thesis
    proof (cases "initialized s1")
      case None
      have f: "fst (initialize_database_try env s1) = Inl e"
        using assms(2) initialize_database_try_handles[of env s1 s] by simp
      from script_initialization_fails[OF None f, of Load] K I show ?thesis by simp
    next
      case (Some b)
      with K have "initialized s1 \<noteq> None" "\<not> db_connected s1" by auto
      from script_not_ready[OF this, of env Load] K I show ?thesis by simp
    qed
  qed
qed

lemma session_not_ready:
  assumes "initialized s \<noteq> None" and "\<not> db_connected s"
  shows "initialized (session env evs s) \<noteq> None \<and> \<not> db_connected (session env evs s) \<and>
         calls (session env evs s) = calls s"
  using assms
proof (induction evs arbitrary: s)
  case Nil
  then show ?case by (simp add: session_def)
next
  case (Cons ev evs)
  let ?s1 = "snd (interact env ev s)"
  have K: "initialized ?s1 \<noteq> None" "\<not> db_connected ?s1" "calls ?s1 = calls s"
    using interact_not_ready[OF Cons.prems, of env ev] by auto
  have "session env (ev # evs) s = session env evs ?s1"
    by (simp add: session_def)
  with Cons.IH[OF K(1,2)] K(3) show ?case by simp
qed

subsection \<open>While not ready, a run changes nothing but the page\<close>

lemma script_not_ready_history:
  assumes "initialized s \<noteq> None" and "\<not> db_connected s"
  shows "chat_history (snd (script env ev s)) =
           (if ev = ClearChatHistory then [] else chat_history s) \<and>
         llm (snd (script env ev s)) = llm s \<and>
         db_chain (snd (script env ev s)) = db_chain s"
proof -
  from assms obtain b where b: "initialized s = Some b" by auto
  show ?thesis
    using b assms(2)
    by (cases ev) (auto simp: script_def sidebar_def initialize_components_def page_def Let_def)
qed

lemma script_not_ready_submit:
  assumes "initialized s \<noteq> None" and "\<not> db_connected s"
  shows "script env (SendMessage question) s =
     (Stopped,
      s\<lparr>rendered :=
          [error ''**System Not Ready**'',
           warning ''Please check your database connection and OpenAI API key configuration.'']\<rparr>)"
proof -
  from assms obtain b where b: "initialized s = Some b" by auto
  show ?thesis
    using b assms(2)
    by (simp add: script_def sidebar_def initialize_components_def page_def Let_def)
qed

lemma interact_not_ready_history:
  assumes "initialized s \<noteq> None" and "\<not> db_connected s"
  shows "chat_history (snd (interact env ev s)) =
           (if ev = ClearChatHistory then [] else chat_history s) \<and>
         llm (snd (interact env ev s)) = llm s \<and>
         db_chain (snd (interact env ev s)) = db_chain s"
proof -
  obtain c s1 where S: "script env ev s = (c, s1)" by (cases "script env ev s")
  have K: "initialized s1 \<noteq> None" "\<not> db_connected s1"
    using script_not_ready[OF assms, of env ev] S by auto
  have H: "chat_history s1 = (if ev = ClearChatHistory then [] else chat_history s)"
      "llm s1 = llm s" "db_chain s1 = db_chain s"
    using script_not_ready_history[OF assms, of env ev] S by auto
  show ?thesis
  proof (cases "c = Rerun")
    case True
    then have "interact env ev s = script env Load s1"
      using S by (simp add: interact_def)
    with script_not_ready_history[OF K, of env Load] H show ?thesis by simp
  next
    case False
    then have "interact env ev s = (c, s1)"
      using S by (cases c) (simp_all add: interact_def)
    with H show ?thesis by simp
  qed
qed

lemma script_initialization_fails_submit:
  assumes "initialized s = None" and "fst (initialize_database_try env s) = Inl e"
  shows "script env (SendMessage question) s =
     (Stopped,
      s\<lparr>rendered :=
          [error (''Database connection failed: '' @ str e),
           error ''**System Not Ready**'',
           warning ''Please check your database connection and OpenAI API key configuration.''],
        db_connected := False, llm := None, db := None, db_chain := None,
        initialized := Some True\<rparr>)"
  using assms(1)
  by (simp add: script_def sidebar_def initialize_components_def page_def Let_def
        initialize_database_fails[OF assms(2)])

lemma script_initialization_fails_history:
  assumes "initialized s = None" and "fst (initialize_database_try env s) = Inl e"
  shows "chat_history (snd (script env ev s)) =
           (if ev = ClearChatHistory then [] else chat_history s) \<and>
         (initialized (snd (script env ev s)) \<noteq> None \<longrightarrow>
            llm (snd (script env ev s)) = None \<and> db_chain (snd (script env ev s)) = None)"
  using assms(1)
  by (cases ev) (auto simp: script_def sidebar_def initialize_components_def page_def Let_def
        initialize_database_fails[OF assms(2)])

lemma interact_initialization_fails_history:
  assumes "initialized s = None" and "fst (initialize_database_try env s) = Inl e"
  shows "chat_history (snd (interact env ev s)) =
           (if ev = ClearChatHistory then [] else chat_history s) \<and>
         llm (snd (interact env ev s)) = None \<and>
         db_chain (snd (interact env ev s)) = None"
proof -
  obtain c s1 where S: "script env ev s = (c, s1)" by (cases "script env ev s")
  have K: "c \<in> {Stopped, Rerun}" "c = Stopped \<longrightarrow> initialized s1 \<noteq> None"
      "initialized s1 \<noteq> None \<longrightarrow> \<not> db_connected s1"
    using script_initialization_fails[OF assms, of ev] S by auto
  have H: "chat_history s1 = (if ev = ClearChatHistory then [] else chat_history s)"
      "initialized s1 \<noteq> None \<longrightarrow> llm s1 = None \<and> db_chain s1 = None"
    using script_initialization_fails_history[OF assms, of ev] S by auto
  show ?thesis
  proof (cases "c = Rerun")
    case False
    with K have "c = Stopped" by auto
    with S K H show ?thesis by (simp add: interact_def)
  next
    case True
    then have I: "interact env ev s = script env Load s1"
      using S by (simp add: interact_def)
    show ?thesis
    proof (cases "initialized s1")
      case None
      have f: "fst (initialize_database_try env s1) = Inl e"
        using assms(2) initialize_database_try_handles[of env s1 s] by simp
      have "fst (script env Load s1) = Stopped"
        using script_initialization_fails[OF None f, of Load] by simp
      then have "initialized (snd (script env Load s1)) \<noteq> None"
        using script_initialization_fails[OF None f, of Load] by simp
      with script_initialization_fails_history[OF None f, of Load] H I show ?thesis by simp
    next
      case (Some b)
      with K H have R: "initialized s1 \<noteq> None" "\<not> db_connected s1"
        "llm s1 = None" "db_chain s1 = None" by auto
      from script_not_ready_history[OF R(1,2), of env Load] R H I show ?thesis by simp
    qed
  qed
qed

lemma session_not_ready_history:
  assumes "initialized s \<noteq> None" and "\<not> db_connected s"
  shows "chat_history (session env evs s) =
           (if ClearChatHistory \<in> set evs then [] else chat_history s) \<and>
         llm (session env evs s) = llm s \<and>
         db_chain (session env evs s) = db_chain s"
  using assms
proof (induction evs arbitrary: s)
  case Nil
  then show ?case by (simp add: session_def)
next
  case (Cons ev evs)
  let ?s1 = "snd (interact env ev s)"
  have K: "initialized ?s1 \<noteq> None" "\<not> db_connected ?s1"
    using interact_not_ready[OF Cons.prems, of env ev] by auto
  have H: "chat_history ?s1 = (if ev = ClearChatHistory then [] else chat_history s)"
      "llm ?s1 = llm s" "db_chain ?s1 = db_chain s"
    using interact_not_ready_history[OF Cons.prems, of env ev] by auto
  have E: "session env (ev # evs) s = session env evs ?s1"
    by (simp add: session_def)
  from Cons.IH[OF K] H show ?case unfolding E by auto
qed

subsection \<open>Exit phrases, evaluated\<close>

lemma is_exit_GoodBye: "is_exit ''  GoodBye ''"
  by code_simp

lemma is_exit_bye: "is_exit ''bye''"
  by code_simp

lemma not_is_exit_exit_now: "\<not> is_exit ''exit now''"
  by code_simp

lemma not_is_exit_please_quit: "\<not> is_exit ''please quit''"
  by code_simp

lemma not_is_exit_empty: "\<not> is_exit []"
  by code_simp

lemma not_is_exit_Canada: "\<not> is_exit ''How many students went to Canada?''"
  by code_simp

lemma is_exit_QUIT: "is_exit ''QUIT''"
  by code_simp

lemma not_is_exit_India: "\<not> is_exit ''How many students from India?''"
  by code_simp

section \<open>The claims\<close>

text \<open>
  C1, as stated, fails: the question \<^verbatim>\<open>bye\<close> is a string passed to
  \<^verbatim>\<open>process_question\<close>, the call returns \<^verbatim>\<open>True\<close>, and no entry at all is
  appended to the chat history.
\<close>

theorem process_question_bye_appends_no_answer:
  "fst (process_question canada_env ''bye'' canada_session) = Inr True \<and>
   chat_history (snd (process_question canada_env ''bye'' canada_session)) = []"
  using is_exit_bye by (simp add: process_question_exit canada_session_def new_session_def)

text \<open>
  C1, amended. For every question string (the empty one included) and whatever the
  libraries do, \<^verbatim>\<open>process_question\<close> returns normally; when the question is not an
  exit phrase, the chat history grows by the user entry and one \<^verbatim>\<open>Bot\<close> entry
  after it; when it is an exit phrase, the chat history is unchanged.
\<close>

theorem process_question_returns:
  "\<exists>b s'. process_question env question s = (Inr b, s') \<and>
     (\<exists>answer. chat_history s' = chat_history s @
        (if is_exit question then [] else [(''You'', question), (''Bot'', answer)]))"
proof (cases "is_exit question")
  case True
  then show ?thesis by (auto simp: process_question_exit)
next
  case False
  let ?s1 = "s\<lparr>chat_history := chat_history s @ [(''You'', question)]\<rparr>"
  obtain x s2 where G: "generate_response env question (llm s) (db_chain s) ?s1 = (x, s2)"
    by (cases "generate_response env question (llm s) (db_chain s) ?s1")
  from process_question_answer[OF False G] False show ?thesis by auto
qed

theorem process_question_returns_witness:
  "\<exists>b s'. process_question unreachable_env [] canada_session = (Inr b, s') \<and>
     (\<exists>answer. chat_history s' = [(''You'', []), (''Bot'', answer)])"
proof -
  have c: "chat_history canada_session = []"
    by (simp add: canada_session_def new_session_def)
  from process_question_returns[of unreachable_env "[]" canada_session] not_is_exit_empty c
  show ?thesis by simp
qed

text \<open>
  C2. Whatever questions are processed one after the other, a chat history that
  alternates user and assistant entries still does so afterwards: it starts with a
  user entry and ends with an assistant entry, and it has grown by one
  \<^verbatim>\<open>You\<close>/\<^verbatim>\<open>Bot\<close> pair for each question that is not an exit phrase, in order,
  the assistant entry right after the user entry of its question.
\<close>

theorem chat_history_alternates:
  assumes "alternating (chat_history s)"
  shows "alternating (chat_history (process_questions env questions s)) \<and>
         (chat_history (process_questions env questions s) \<noteq> [] \<longrightarrow>
            fst (hd (chat_history (process_questions env questions s))) = ''You'' \<and>
            fst (last (chat_history (process_questions env questions s))) = ''Bot'') \<and>
         (\<exists>answers. length answers = length (filter (\<lambda>q. \<not> is_exit q) questions) \<and>
            chat_history (process_questions env questions s) =
              chat_history s @ exchanges (zip (filter (\<lambda>q. \<not> is_exit q) questions) answers))"
proof -
  obtain answers where A:
    "length answers = length (filter (\<lambda>q. \<not> is_exit q) questions)"
    "chat_history (process_questions env questions s) =
       chat_history s @ exchanges (zip (filter (\<lambda>q. \<not> is_exit q) questions) answers)"
    using questions_history[of questions env s] unfolding process_questions_foldl by blast
  have alt: "alternating (chat_history (process_questions env questions s))"
    unfolding A(2) using assms alternating_exchanges by (rule alternating_append)
  from alt alternating_ends A show ?thesis by blast
qed

theorem chat_history_alternates_witness:
  "alternating (chat_history canada_session) \<and>
   alternating (chat_history (process_questions canada_env
      [''How many students went to Canada?'', ''QUIT'', ''How many students from India?'']
      canada_session)) \<and>
   fst (hd (chat_history (process_questions canada_env
      [''How many students went to Canada?'', ''QUIT'', ''How many students from India?'']
      canada_session))) = ''You'' \<and>
   fst (last (chat_history (process_questions canada_env
      [''How many students went to Canada?'', ''QUIT'', ''How many students from India?'']
      canada_session))) = ''Bot'' \<and>
   (\<exists>answers. length answers = 2 \<and>
      chat_history (process_questions canada_env
        [''How many students went to Canada?'', ''QUIT'', ''How many students from India?'']
        canada_session) =
      exchanges (zip [''How many students went to Canada?'', ''How many students from India?'']
        answers))"
proof -
  let ?qs = "[''How many students went to Canada?'', ''QUIT'', ''How many students from India?'']"
  let ?h = "chat_history (process_questions canada_env ?qs canada_session)"
  have c: "chat_history canada_session = []"
    by (simp add: canada_session_def new_session_def)
  then have a: "alternating (chat_history canada_session)" by simp
  have f: "filter (\<lambda>q. \<not> is_exit q) ?qs =
      [''How many students went to Canada?'', ''How many students from India?'']"
    using not_is_exit_Canada is_exit_QUIT not_is_exit_India by simp
  note T = chat_history_alternates[OF a, of canada_env ?qs]
  from T obtain answers where A0:
    "length answers = length (filter (\<lambda>q. \<not> is_exit q) ?qs)"
    "?h = chat_history canada_session @ exchanges (zip (filter (\<lambda>q. \<not> is_exit q) ?qs) answers)"
    by blast
  have A: "length answers = 2"
    "?h = exchanges (zip [''How many students went to Canada?'', ''How many students from India?''] answers)"
    using A0 unfolding f c by (simp_all del: process_questions.simps)
  from A(1) obtain r1 r2 where "answers = [r1, r2]"
    by (cases answers; cases "tl answers") auto
  with A(2) have ne: "?h \<noteq> []" by (simp add: exchanges_def del: process_questions.simps)
  from T ne a A show ?thesis by blast
qed

text \<open>
  C3. When the question, lowercased and stripped of leading and trailing whitespace,
  is one of \<^verbatim>\<open>exit\<close>, \<^verbatim>\<open>quit\<close>, \<^verbatim>\<open>bye\<close>, \<^verbatim>\<open>goodbye\<close>,
  \<^verbatim>\<open>process_question\<close> returns \<^verbatim>\<open>True\<close> after showing the farewell (a success
  notice, an information notice, balloons) and nothing else happens: no call to the
  chain or the chat model, and the chat history is as it was.
\<close>

theorem exit_short_circuit:
  assumes "strip (lower question) \<in> set exit_phrases"
  shows "process_question env question s =
           (Inr True,
            s\<lparr>rendered := rendered s @
                [success ''**Thank you for using Student Migration Analytics!**'',
                 info ''Feel free to ask more questions anytime.'',
                 balloons]\<rparr>) \<and>
         calls (snd (process_question env question s)) = calls s \<and>
         chat_history (snd (process_question env question s)) = chat_history s"
  using assms by (simp add: process_question_def)

theorem exit_short_circuit_witness:
  "strip (lower ''  GoodBye '') \<in> set exit_phrases \<and>
   process_question canada_env ''  GoodBye '' canada_session =
     (Inr True,
      canada_session\<lparr>rendered := rendered canada_session @
         [success ''**Thank you for using Student Migration Analytics!**'',
          info ''Feel free to ask more questions anytime.'',
          balloons]\<rparr>) \<and>
   calls (snd (process_question canada_env ''  GoodBye '' canada_session)) = calls canada_session \<and>
   chat_history (snd (process_question canada_env ''  GoodBye '' canada_session)) =
     chat_history canada_session"
proof -
  have h: "strip (lower ''  GoodBye '') \<in> set exit_phrases"
    using is_exit_GoodBye by (simp add: is_exit_def)
  from exit_short_circuit[OF h, of canada_env canada_session] h show ?thesis by blast
qed

text \<open>
  C4. Whenever the body of \<^verbatim>\<open>retrieve_from_db\<close> fails with an exception (the chain
  raises, the chain is \<^verbatim>\<open>None\<close>, the result lacks its key), the function returns
  normally the string \<^verbatim>\<open>Error retrieving data: \<close> followed by the exception's
  message.
\<close>

theorem retrieve_from_db_error_payload:
  assumes "retrieve_from_db_try env query h s = (Inl e, s')"
  shows "retrieve_from_db env query h s = (Inr (''Error retrieving data: '' @ str e), s')"
  using assms by (simp add: retrieve_from_db_def)

theorem retrieve_from_db_error_payload_witness:
  "retrieve_from_db_try unreachable_env ''How many students from India?'' (Some canada_chain)
      canada_session =
     (Inl (Error ''Connection refused''),
      canada_session\<lparr>calls := calls canada_session @
         [ChainCall canada_chain ''How many students from India?'']\<rparr>) \<and>
   retrieve_from_db unreachable_env ''How many students from India?'' (Some canada_chain)
      canada_session =
     (Inr (''Error retrieving data: '' @ str (Error ''Connection refused'')),
      canada_session\<lparr>calls := calls canada_session @
         [ChainCall canada_chain ''How many students from India?'']\<rparr>)"
proof -
  have h: "retrieve_from_db_try unreachable_env ''How many students from India?''
      (Some canada_chain) canada_session =
     (Inl (Error ''Connection refused''),
      canada_session\<lparr>calls := calls canada_session @
         [ChainCall canada_chain ''How many students from India?'']\<rparr>)"
    by (simp add: retrieve_from_db_try_def call_db_chain_def unreachable_env_def canada_env_def)
  from retrieve_from_db_error_payload[OF h] h show ?thesis by blast
qed

text \<open>
  C5. When the call to the chat model in \<^verbatim>\<open>generate_response\<close> fails with an
  exception, the function returns normally the fixed apology
  \<^verbatim>\<open>Sorry, I encountered an error while processing your question: \<close> followed by
  the exception's message.
\<close>

theorem generate_response_apology:
  assumes "retrieve_from_db env query h_chain s = (Inr db_context, s1)"
      and "call_llm env h_llm
             [SystemMessage system_message, human_qry_template query db_context] s1 = (Inl e, s2)"
  shows "generate_response env query h_llm h_chain s =
           (Inr (''Sorry, I encountered an error while processing your question: '' @ str e), s2)"
  using assms by (simp add: generate_response_def generate_response_try_def Let_def)

theorem generate_response_apology_witness:
  "retrieve_from_db canada_env ''How many students from India?'' None canada_session =
     (Inr (''Error retrieving data: '' @ str NoneType_not_callable), canada_session) \<and>
   call_llm unreachable_env (Some canada_llm)
     [SystemMessage system_message,
      human_qry_template ''How many students from India?''
        (''Error retrieving data: '' @ str NoneType_not_callable)] canada_session =
     (Inl (Error ''Request timed out''),
      canada_session\<lparr>calls := calls canada_session @ [LlmCall canada_llm
        [SystemMessage system_message,
         human_qry_template ''How many students from India?''
           (''Error retrieving data: '' @ str NoneType_not_callable)]]\<rparr>) \<and>
   generate_response unreachable_env ''How many students from India?'' (Some canada_llm) None
       canada_session =
     (Inr (''Sorry, I encountered an error while processing your question: '' @
             str (Error ''Request timed out'')),
      canada_session\<lparr>calls := calls canada_session @ [LlmCall canada_llm
        [SystemMessage system_message,
         human_qry_template ''How many students from India?''
           (''Error retrieving data: '' @ str NoneType_not_callable)]]\<rparr>)"
proof -
  have h1: "retrieve_from_db canada_env ''How many students from India?'' None canada_session =
     (Inr (''Error retrieving data: '' @ str NoneType_not_callable), canada_session)"
    by (simp add: retrieve_from_db_def retrieve_from_db_try_def call_db_chain_def)
  have h2: "call_llm unreachable_env (Some canada_llm)
     [SystemMessage system_message,
      human_qry_template ''How many students from India?''
        (''Error retrieving data: '' @ str NoneType_not_callable)] canada_session =
     (Inl (Error ''Request timed out''),
      canada_session\<lparr>calls := calls canada_session @ [LlmCall canada_llm
        [SystemMessage system_message,
         human_qry_template ''How many students from India?''
           (''Error retrieving data: '' @ str NoneType_not_callable)]]\<rparr>)"
    by (simp add: call_llm_def unreachable_env_def canada_env_def)
  have h1': "retrieve_from_db unreachable_env ''How many students from India?'' None canada_session =
     (Inr (''Error retrieving data: '' @ str NoneType_not_callable), canada_session)"
    by (simp add: retrieve_from_db_def retrieve_from_db_try_def call_db_chain_def)
  from generate_response_apology[OF h1' h2] h1 h2 show ?thesis by blast
qed

text \<open>
  C6. With no \<^verbatim>\<open>OPENAI_API_KEY\<close> in the environment and a reachable database,
  \<^verbatim>\<open>initialize_database\<close> reports nothing: \<^verbatim>\<open>os.getenv\<close> hands back the
  placeholder \<^verbatim>\<open>YOUR API KEY\<close>, the emptiness test of line 26 passes it, all three
  handles are built around the placeholder and \<^verbatim>\<open>db_connected\<close> is set.
\<close>

theorem initialize_database_unset_key:
  "initialize_database unset_key_env new_session =
     (Inr (Some \<lparr>temperature = 0, openai_api_key = ''YOUR API KEY''\<rparr>,
           Some canada_db,
           Some \<lparr>chain_llm = \<lparr>temperature = 0, openai_api_key = ''YOUR API KEY''\<rparr>,
                 chain_db = canada_db, verbose = True\<rparr>),
      new_session\<lparr>db_connected := True\<rparr>)"
  by (simp add: initialize_database_def initialize_database_try_def unset_key_env_def
        canada_env_def os_getenv_def canada_db_def Let_def)

text \<open>
  C7. The chain that \<^verbatim>\<open>initialize_database\<close> returns is built on the chat model it
  returns, whose temperature is zero; every call \<^verbatim>\<open>retrieve_from_db\<close> makes with
  that chain, whatever the question and the state, goes to that zero-temperature
  configuration.
\<close>

theorem translator_temperature_zero:
  assumes "initialize_database env s = (Inr (l, d, Some c), s')"
  shows "temperature (chain_llm c) = 0 \<and> l = Some (chain_llm c) \<and>
         calls (snd (retrieve_from_db env question (Some c) w)) =
           calls w @ [ChainCall c question] \<and>
         call_temperature (ChainCall c question) = 0"
  using initialize_database_temperature[OF assms]
  by (simp add: retrieve_from_db_world call_temperature_def)

theorem translator_temperature_zero_witness:
  "initialize_database canada_env new_session =
     (Inr (Some canada_llm, Some canada_db, Some canada_chain),
      new_session\<lparr>db_connected := True\<rparr>) \<and>
   temperature (chain_llm canada_chain) = 0 \<and> Some canada_llm = Some (chain_llm canada_chain) \<and>
   calls (snd (retrieve_from_db canada_env ''How many students from India?''
            (Some canada_chain) canada_session)) =
     calls canada_session @ [ChainCall canada_chain ''How many students from India?''] \<and>
   call_temperature (ChainCall canada_chain ''How many students from India?'') = 0"
proof -
  have h: "initialize_database canada_env new_session =
     (Inr (Some canada_llm, Some canada_db, Some canada_chain),
      new_session\<lparr>db_connected := True\<rparr>)"
    by (simp add: initialize_database_def initialize_database_try_def canada_env_def
          os_getenv_def canada_db_def canada_llm_def canada_chain_def Let_def)
  from translator_temperature_zero[OF h, of "''How many students from India?''" canada_session] h
  show ?thesis by blast
qed

text \<open>
  C8. When session initialization fails (the data source is unreachable or rejects the
  credentials, so the \<^verbatim>\<open>try\<close> of \<^verbatim>\<open>initialize_database\<close> raises), \<^verbatim>\<open>db_connected\<close>
  is set to false and no handle is returned. From then on the session is not ready:
  a run of the script on a submitted question stops at the gate with \<^verbatim>\<open>st.stop()\<close>
  and leaves the session state as it was, the two notices of the gate apart, so no
  question reaches \<^verbatim>\<open>process_question\<close>; every interaction, the retry button
  included, ends at the gate; the flag stays false, the handles stay \<^verbatim>\<open>None\<close>, neither
  the chain nor the chat model is called, and the chat history only ever changes by
  being cleared.
\<close>

theorem not_ready_blocks_the_pipeline:
  assumes "initialized s = None"
      and "fst (initialize_database_try env s) = Inl e"
  shows "\<not> db_connected (snd (initialize_database env s)) \<and>
         fst (initialize_database env s) = Inr (None, None, None) \<and>
         script env (SendMessage question) s =
           (Stopped,
            s\<lparr>rendered :=
                [error (''Database connection failed: '' @ str e),
                 error ''**System Not Ready**'',
                 warning ''Please check your database connection and OpenAI API key configuration.''],
              db_connected := False, llm := None, db := None, db_chain := None,
              initialized := Some True\<rparr>) \<and>
         fst (interact env ev (session env (ev0 # evs) s)) = Stopped \<and>
         \<not> db_connected (session env (ev0 # evs) s) \<and>
         calls (session env (ev0 # evs) s) = calls s \<and>
         calls (snd (interact env ev (session env (ev0 # evs) s))) = calls s \<and>
         llm (session env (ev0 # evs) s) = None \<and>
         db_chain (session env (ev0 # evs) s) = None \<and>
         chat_history (session env (ev0 # evs) s) =
           (if ClearChatHistory \<in> set (ev0 # evs) then [] else chat_history s) \<and>
         script env (SendMessage question) (session env (ev0 # evs) s) =
           (Stopped,
            (session env (ev0 # evs) s)\<lparr>rendered :=
                [error ''**System Not Ready**'',
                 warning ''Please check your database connection and OpenAI API key configuration.'']\<rparr>) \<and>
         interact env (SendMessage question) (session env (ev0 # evs) s) =
           (Stopped,
            (session env (ev0 # evs) s)\<lparr>rendered :=
                [error ''**System Not Ready**'',
                 warning ''Please check your database connection and OpenAI API key configuration.'']\<rparr>) \<and>
         chat_history (snd (interact env ev (session env (ev0 # evs) s))) =
           (if ev = ClearChatHistory then [] else chat_history (session env (ev0 # evs) s))"
proof -
  let ?s1 = "snd (interact env ev0 s)"
  let ?w = "session env (ev0 # evs) s"
  have K: "initialized ?s1 \<noteq> None" "\<not> db_connected ?s1" "calls ?s1 = calls s"
    using interact_initialization_fails[OF assms, of ev0] by auto
  have KH: "chat_history ?s1 = (if ev0 = ClearChatHistory then [] else chat_history s)"
      "llm ?s1 = None" "db_chain ?s1 = None"
    using interact_initialization_fails_history[OF assms, of ev0] by auto
  have E: "?w = session env evs ?s1"
    by (simp add: session_def)
  have L: "initialized ?w \<noteq> None" "\<not> db_connected ?w" "calls ?w = calls s"
    using session_not_ready[OF K(1,2), of env evs] K(3) unfolding E by auto
  have LH: "chat_history ?w = (if ClearChatHistory \<in> set (ev0 # evs) then [] else chat_history s)"
      "llm ?w = None" "db_chain ?w = None"
    using session_not_ready_history[OF K(1,2), of env evs] KH unfolding E by auto
  have I: "\<not> db_connected (snd (initialize_database env s))"
      "fst (initialize_database env s) = Inr (None, None, None)"
    using initialize_database_fails[OF assms(2), of s] by simp_all
  note S0 = script_initialization_fails_submit[OF assms, of question]
  note S1 = script_not_ready_submit[OF L(1,2), of env question]
  have S2: "interact env (SendMessage question) ?w =
           (Stopped,
            ?w\<lparr>rendered :=
                [error ''**System Not Ready**'',
                 warning ''Please check your database connection and OpenAI API key configuration.'']\<rparr>)"
    unfolding interact_def S1 by simp
  note N = interact_not_ready[OF L(1,2), of env ev]
  note NH = interact_not_ready_history[OF L(1,2), of env ev]
  show ?thesis
    using I S0 S1 S2 N NH L LH by (intro conjI) simp_all
qed

theorem not_ready_blocks_the_pipeline_witness:
  "initialized new_session = None \<and>
   fst (initialize_database_try unreachable_env new_session) = Inl (Error ''Connection refused'') \<and>
   \<not> db_connected (snd (initialize_database unreachable_env new_session)) \<and>
   fst (interact unreachable_env (SendMessage ''How many students from India?'')
          (session unreachable_env [Load, RetryConnection] new_session)) = Stopped \<and>
   calls (snd (interact unreachable_env (SendMessage ''How many students from India?'')
          (session unreachable_env [Load, RetryConnection] new_session))) = [] \<and>
   chat_history (session unreachable_env [Load, RetryConnection] new_session) = [] \<and>
   script unreachable_env (SendMessage ''How many students from India?'')
       (session unreachable_env [Load, RetryConnection] new_session) =
     (Stopped,
      (session unreachable_env [Load, RetryConnection] new_session)\<lparr>rendered :=
         [error ''**System Not Ready**'',
          warning ''Please check your database connection and OpenAI API key configuration.'']\<rparr>) \<and>
   chat_history (snd (interact unreachable_env (SendMessage ''How many students from India?'')
          (session unreachable_env [Load, RetryConnection] new_session))) = []"
proof -
  have a: "initialized new_session = None" by (simp add: new_session_def)
  have b: "fst (initialize_database_try unreachable_env new_session) = Inl (Error ''Connection refused'')"
    by (simp add: initialize_database_try_def unreachable_env_def canada_env_def os_getenv_def Let_def)
  have c: "calls new_session = []" "chat_history new_session = []" by (simp_all add: new_session_def)
  note T = not_ready_blocks_the_pipeline[OF a b,
      of "''How many students from India?''" "SendMessage ''How many students from India?''"
         Load "[RetryConnection]"]
  show ?thesis
    using a b c T by simp
qed

text \<open>
  C9. For every question that is not an exit phrase, \<^verbatim>\<open>process_question\<close> returns
  \<^verbatim>\<open>True\<close>, never \<^verbatim>\<open>False\<close>: \<^verbatim>\<open>generate_response\<close> returns a string whatever
  the libraries raise, and that string is the last entry of the chat history, so no
  user entry is left without its answer.
\<close>

theorem process_question_never_False:
  assumes "\<not> is_exit question"
  shows "fst (process_question env question s) = Inr True \<and>
         fst (process_question env question s) \<noteq> Inr False \<and>
         (\<exists>response w.
            generate_response env question (llm s) (db_chain s)
              (s\<lparr>chat_history := chat_history s @ [(''You'', question)]\<rparr>) = (Inr response, w) \<and>
            last (chat_history (snd (process_question env question s))) = (''Bot'', response))"
proof -
  let ?s1 = "s\<lparr>chat_history := chat_history s @ [(''You'', question)]\<rparr>"
  obtain x s2 where G: "generate_response env question (llm s) (db_chain s) ?s1 = (x, s2)"
    by (cases "generate_response env question (llm s) (db_chain s) ?s1")
  from process_question_answer[OF assms G] G show ?thesis by auto
qed

theorem process_question_never_False_witness:
  "\<not> is_exit ''please quit'' \<and>
   fst (process_question unreachable_env ''please quit'' new_session) = Inr True \<and>
   fst (process_question unreachable_env ''please quit'' new_session) \<noteq> Inr False \<and>
   (\<exists>response w.
      generate_response unreachable_env ''please quit'' (llm new_session) (db_chain new_session)
        (new_session\<lparr>chat_history := chat_history new_session @ [(''You'', ''please quit'')]\<rparr>) =
        (Inr response, w) \<and>
      last (chat_history (snd (process_question unreachable_env ''please quit'' new_session))) =
        (''Bot'', response))"
  using process_question_never_False[OF not_is_exit_please_quit, of unreachable_env new_session]
    not_is_exit_please_quit by blast

text \<open>
  C10. A question whose lowercased, stripped text is not one of the four exit phrases
  (for instance \<^verbatim>\<open>exit now\<close>) goes through the whole pipeline:
  \<^verbatim>\<open>retrieve_from_db\<close> first, then the chat model on the retrieved context, one call
  each when the handles are set, in that order; the user entry and the assistant entry
  with the generated answer are appended and \<^verbatim>\<open>True\<close> is returned.
\<close>

theorem non_exit_runs_pipeline:
  assumes "strip (lower question) \<notin> set exit_phrases"
  shows "\<exists>db_context answer w.
           fst (retrieve_from_db env question (db_chain s)
                  (s\<lparr>chat_history := chat_history s @ [(''You'', question)]\<rparr>)) = Inr db_context \<and>
           generate_response env question (llm s) (db_chain s)
             (s\<lparr>chat_history := chat_history s @ [(''You'', question)]\<rparr>) = (Inr answer, w) \<and>
           process_question env question s =
             (Inr True,
              w\<lparr>chat_history := chat_history s @ [(''You'', question), (''Bot'', answer)],
                rendered := rendered w @ [success ''Response generated successfully!'']\<rparr>) \<and>
           calls w = calls s
             @ (case db_chain s of None \<Rightarrow> [] | Some c \<Rightarrow> [ChainCall c question])
             @ (case llm s of None \<Rightarrow> []
                | Some k \<Rightarrow> [LlmCall k [SystemMessage system_message,
                                         human_qry_template question db_context]])"
proof -
  let ?s1 = "s\<lparr>chat_history := chat_history s @ [(''You'', question)]\<rparr>"
  have n: "\<not> is_exit question" using assms by (simp add: is_exit_def)
  obtain x w where G: "generate_response env question (llm s) (db_chain s) ?s1 = (x, w)"
    by (cases "generate_response env question (llm s) (db_chain s) ?s1")
  obtain answer where P: "x = Inr answer" "process_question env question s =
     (Inr True,
      w\<lparr>chat_history := chat_history s @ [(''You'', question), (''Bot'', answer)],
         rendered := rendered w @ [success ''Response generated successfully!'']\<rparr>)"
    using process_question_answer[OF n G] by blast
  obtain r where R: "fst (retrieve_from_db env question (db_chain s) ?s1) = Inr r"
    "w = ?s1\<lparr>calls := calls ?s1
           @ (case db_chain s of None \<Rightarrow> [] | Some c \<Rightarrow> [ChainCall c question])
           @ (case llm s of None \<Rightarrow> []
              | Some k \<Rightarrow> [LlmCall k [SystemMessage system_message, human_qry_template question r]])\<rparr>"
    using generate_response_world[of env question "db_chain s" ?s1 "llm s"] G by auto
  have "calls w = calls s
           @ (case db_chain s of None \<Rightarrow> [] | Some c \<Rightarrow> [ChainCall c question])
           @ (case llm s of None \<Rightarrow> []
              | Some k \<Rightarrow> [LlmCall k [SystemMessage system_message, human_qry_template question r]])"
    unfolding R(2) by simp
  with G P R(1) show ?thesis by blast
qed

theorem non_exit_runs_pipeline_witness:
  "strip (lower ''exit now'') \<notin> set exit_phrases \<and>
   (\<exists>db_context answer w.
      fst (retrieve_from_db canada_env ''exit now'' (db_chain canada_session)
             (canada_session\<lparr>chat_history :=
                chat_history canada_session @ [(''You'', ''exit now'')]\<rparr>)) = Inr db_context \<and>
      generate_response canada_env ''exit now'' (llm canada_session) (db_chain canada_session)
        (canada_session\<lparr>chat_history :=
           chat_history canada_session @ [(''You'', ''exit now'')]\<rparr>) = (Inr answer, w) \<and>
      process_question canada_env ''exit now'' canada_session =
        (Inr True,
         w\<lparr>chat_history :=
             chat_history canada_session @ [(''You'', ''exit now''), (''Bot'', answer)],
           rendered := rendered w @ [success ''Response generated successfully!'']\<rparr>) \<and>
      calls w = calls canada_session
        @ (case db_chain canada_session of None \<Rightarrow> []
           | Some c \<Rightarrow> [ChainCall c ''exit now''])
        @ (case llm canada_session of None \<Rightarrow> []
           | Some k \<Rightarrow> [LlmCall k [SystemMessage system_message,
                                    human_qry_template ''exit now'' db_context]]))"
proof -
  have h: "strip (lower ''exit now'') \<notin> set exit_phrases"
    using not_is_exit_exit_now by (simp add: is_exit_def)
  from non_exit_runs_pipeline[OF h, of canada_env canada_session] h show ?thesis by blast
qed

end
